theory Spec2Isabelle
  imports
    Complex_Main
    "HOL-Library.Sublist"
    "HOL-Library.Multiset"
    "HOL-Library.Char_ord"
    "HOL-Library.List_Lexorder"
begin

section \<open>Data model of \<open>fastfood.py\<close>\<close>

text \<open>
  The program works on pandas data frames. A frame is modelled as the list of its rows, a
  row as a record of the columns the program touches. A cell holds a number, a string or
  the missing value (pandas' \<open>NaN\<close>/\<open>None\<close>). Numbers are exact rationals: the rounding
  of 64-bit floats is outside the model. The columns \<open>category\<close> and \<open>sub_category\<close>
  exist only after the classification steps have added them, so they are optional. The
  grouping key \<open>restaurant\<close> is a string in every row.
\<close>

datatype cell = Num rat | Str string | Null

record row =
  restaurant :: string
  item :: cell
  calories :: cell
  total_carb :: cell
  category :: "cell option"
  sub_category :: "cell option"

type_synonym frame = "row list"

subsection \<open>Exceptions, logging and \<open>try ... except Exception\<close>\<close>

text \<open>
  The exceptions the program can meet. \<open>KeyboardInterrupt\<close> and \<open>SystemExit\<close> derive
  from \<open>BaseException\<close> only; all the others are instances of \<open>Exception\<close>.
\<close>

datatype exn =
    AttributeError
  | KeyError string
  | TypeError
  | ValueError
  | OSError
  | DatabaseError
  | KeyboardInterrupt
  | SystemExit

fun is_Exception :: "exn \<Rightarrow> bool" where
  "is_Exception KeyboardInterrupt = False"
| "is_Exception SystemExit = False"
| "is_Exception _ = True"

datatype log_entry = INFO string | ERROR string exn

text \<open>
  Every function of the program has the shape
  \<^verbatim>\<open>try: <body>; logging.info(ok); return v
except Exception as e: logging.error(msg.format(str(e)))\<close>
  A body is a value of type \<open>exn + 'a\<close>. The result of the whole function is what the
  caller sees (a raised exception, or the returned value, where \<open>None\<close> is Python's
  \<open>None\<close>) together with the lines written to the log.
\<close>

definition try_except :: "(exn + 'a) \<Rightarrow> string \<Rightarrow> string \<Rightarrow> (exn + 'a option) \<times> log_entry list" where
  "try_except body ok msg =
     (case body of
        Inr v \<Rightarrow> (Inr (Some v), [INFO ok])
      | Inl e \<Rightarrow> if is_Exception e then (Inr None, [ERROR msg e]) else (Inl e, []))"

definition bind_exn :: "(exn + 'a) \<Rightarrow> ('a \<Rightarrow> exn + 'b) \<Rightarrow> exn + 'b" where
  "bind_exn m f = (case m of Inl e \<Rightarrow> Inl e | Inr v \<Rightarrow> f v)"

text \<open>
  \<open>data.apply(f, axis=1)\<close>. On a frame with rows the function is applied row by row,
  the first exception ends it, and the result is the series of the values. On a frame
  without rows pandas calls the function once on a row of missing values to see what
  it returns: if that call raises an instance of \<open>Exception\<close>, the exception is
  dropped and the result is a copy of the frame; otherwise the result is an empty
  series. The optional columns are recorded in the rows, so a frame without rows has
  the ingested columns only.
\<close>

datatype 'a applied = Series "'a list" | Frame_copy

definition probe_row :: row where
  "probe_row = \<lparr>restaurant = [], item = Null, calories = Null, total_carb = Null,
     category = None, sub_category = None\<rparr>"

fun map_rows :: "(row \<Rightarrow> exn + 'a) \<Rightarrow> frame \<Rightarrow> exn + 'a list" where
  "map_rows f [] = Inr []"
| "map_rows f (r # rs) =
     (case f r of
        Inl e \<Rightarrow> Inl e
      | Inr v \<Rightarrow> (case map_rows f rs of Inl e \<Rightarrow> Inl e | Inr vs \<Rightarrow> Inr (v # vs)))"

definition apply_rows :: "(row \<Rightarrow> exn + 'a) \<Rightarrow> frame \<Rightarrow> exn + 'a applied" where
  "apply_rows f d =
     (if d = [] then
        (case f probe_row of
           Inl e \<Rightarrow> if is_Exception e then Inr Frame_copy else Inl e
         | Inr v \<Rightarrow> Inr (Series []))
      else bind_exn (map_rows f d) (\<lambda>vs. Inr (Series vs)))"

subsection \<open>Strings\<close>

text \<open>
  \<open>str.lower()\<close> on the ASCII letters; every other character is left as it is.
  \<open>k in s\<close> on strings is the test for a contiguous substring.
\<close>

definition lower_char :: "char \<Rightarrow> char" where
  "lower_char c =
     (let n = (of_char c :: nat) in if 65 \<le> n \<and> n \<le> 90 then char_of (n + 32) else c)"

definition lower :: "string \<Rightarrow> string" where
  "lower s = map lower_char s"

fun str_in :: "string \<Rightarrow> string \<Rightarrow> bool" where
  "str_in k [] = (k = [])"
| "str_in k (c # s) = (prefix k (c # s) \<or> str_in k s)"

fun join :: "string \<Rightarrow> string list \<Rightarrow> string" where
  "join sep [] = []"
| "join sep [x] = x"
| "join sep (x # y # ys) = x @ sep @ join sep (y # ys)"

section \<open>The classifier\<close>

subsection \<open>\<open>categorize_food_items\<close>\<close>

definition main_keywords :: "string list" where
  "main_keywords = [''burger'', ''sandwich'', ''pizza'']"

definition side_keywords :: "string list" where
  "side_keywords = [''fries'', ''salad'']"

definition dessert_keywords :: "string list" where
  "dessert_keywords = [''ice cream'', ''cake'']"

text \<open>The \<open>if/elif/else\<close> chain of \<open>categorize_item\<close>, on an item that is a string.\<close>

definition categorize_name :: "string \<Rightarrow> string" where
  "categorize_name name =
     (if list_ex (\<lambda>keyword. str_in keyword (lower name)) main_keywords then ''Main''
      else if list_ex (\<lambda>keyword. str_in keyword (lower name)) side_keywords then ''Side''
      else if list_ex (\<lambda>keyword. str_in keyword (lower name)) dessert_keywords then ''Dessert''
      else ''Other'')"

text \<open>
  \<open>item.lower()\<close> exists only on strings: a number or a missing value raises
  \<open>AttributeError\<close>.
\<close>

definition categorize_item :: "row \<Rightarrow> exn + string" where
  "categorize_item r =
     (case item r of
        Str name \<Rightarrow> Inr (categorize_name name)
      | _ \<Rightarrow> Inl AttributeError)"

text \<open>
  \<open>data['category'] = ...\<close> writes a series into the rows as the column; a frame with
  several columns cannot be assigned to a single column and raises \<open>ValueError\<close>.
\<close>

definition set_category :: "frame \<Rightarrow> string applied \<Rightarrow> exn + frame" where
  "set_category d a =
     (case a of
        Series cs \<Rightarrow> Inr (map (\<lambda>(r, c). r\<lparr>category := Some (Str c)\<rparr>) (zip d cs))
      | Frame_copy \<Rightarrow> Inl ValueError)"

text \<open>
  The statements inside \<open>try\<close>. The argument is \<open>None\<close> when an earlier stage
  failed; \<open>None.apply\<close> raises \<open>AttributeError\<close>.
\<close>

definition categorize_food_items_body :: "frame option \<Rightarrow> exn + frame" where
  "categorize_food_items_body data =
     (case data of
        None \<Rightarrow> Inl AttributeError
      | Some d \<Rightarrow> bind_exn (apply_rows categorize_item d) (set_category d))"

definition categorize_food_items :: "frame option \<Rightarrow> (exn + frame option) \<times> log_entry list" where
  "categorize_food_items data =
     try_except (categorize_food_items_body data)
       ''Food items categorized successfully.''
       ''Error categorizing food items: {}''"

subsection \<open>\<open>add_subcategory\<close>\<close>

text \<open>
  The list \<open>subcategories\<close> built by \<open>get_subcategory\<close> for an item of category
  \<open>'Main'\<close>: four independent tests, then the guard
  \<^verbatim>\<open>all(subcategory not in item.lower() for subcategory in subcategories)\<close>
  over the labels collected so far.
\<close>

definition main_subcategories :: "string \<Rightarrow> string list" where
  "main_subcategories name =
     (let s0 = [];
          s1 = (if str_in ''chicken'' (lower name) then s0 @ [''Chicken''] else s0);
          s2 = (if str_in ''beef'' (lower name) then s1 @ [''Beef''] else s1);
          s3 = (if str_in ''seafood'' (lower name) then s2 @ [''Seafood''] else s2);
          s4 = (if str_in ''pork'' (lower name) then s3 @ [''Pork''] else s3)
      in if list_all (\<lambda>subcategory. \<not> str_in subcategory (lower name)) s4
         then s4 @ [''Other''] else s4)"

text \<open>
  \<open>row['category']\<close> raises \<open>KeyError\<close> when the column is absent; \<open>item.lower()\<close> is
  reached only for category \<open>'Main'\<close>.
\<close>

definition subcategories_of :: "row \<Rightarrow> exn + string list" where
  "subcategories_of r =
     (case category r of
        None \<Rightarrow> Inl (KeyError ''category'')
      | Some c \<Rightarrow>
          if c = Str ''Main'' then
            (case item r of
               Str name \<Rightarrow> Inr (main_subcategories name)
             | _ \<Rightarrow> Inl AttributeError)
          else Inr [])"

definition get_subcategory :: "row \<Rightarrow> exn + string" where
  "get_subcategory r = bind_exn (subcategories_of r) (\<lambda>subcategories. Inr (join '','' subcategories))"

definition set_sub_category :: "frame \<Rightarrow> string applied \<Rightarrow> exn + frame" where
  "set_sub_category d a =
     (case a of
        Series cs \<Rightarrow> Inr (map (\<lambda>(r, c). r\<lparr>sub_category := Some (Str c)\<rparr>) (zip d cs))
      | Frame_copy \<Rightarrow> Inl ValueError)"

definition add_subcategory_body :: "frame option \<Rightarrow> exn + frame" where
  "add_subcategory_body data =
     (case data of
        None \<Rightarrow> Inl AttributeError
      | Some d \<Rightarrow> bind_exn (apply_rows get_subcategory d) (set_sub_category d))"

definition add_subcategory :: "frame option \<Rightarrow> (exn + frame option) \<times> log_entry list" where
  "add_subcategory data =
     try_except (add_subcategory_body data)
       ''Subcategories added for main food items.''
       ''Error adding subcategories: {}''"

section \<open>The aggregator\<close>

subsection \<open>Grouping and aggregation\<close>

text \<open>
  \<open>data.groupby('restaurant')\<close>: one group per distinct restaurant name (exact
  equality of the strings), the groups in ascending order of the name, which is the
  default \<open>sort=True\<close> of \<open>groupby\<close>.
\<close>

definition group_keys :: "frame \<Rightarrow> string list" where
  "group_keys d = sort (remdups (map restaurant d))"

definition group_rows :: "frame \<Rightarrow> string \<Rightarrow> frame" where
  "group_rows d k = filter (\<lambda>r. restaurant r = k) d"

text \<open>
  A column that holds a string has dtype \<open>object\<close>, and \<open>mean\<close> on it raises
  \<open>TypeError\<close>. On a numeric column the aggregations skip missing values and give
  \<open>NaN\<close>, here \<open>None\<close>, for a group without any number.
\<close>

fun is_text :: "cell \<Rightarrow> bool" where
  "is_text (Str s) = True"
| "is_text _ = False"

definition numeric_column :: "cell list \<Rightarrow> bool" where
  "numeric_column cs = list_all (\<lambda>c. \<not> is_text c) cs"

fun nums :: "cell list \<Rightarrow> rat list" where
  "nums [] = []"
| "nums (Num v # cs) = v # nums cs"
| "nums (c # cs) = nums cs"

definition agg_mean :: "rat list \<Rightarrow> rat option" where
  "agg_mean vs = (if vs = [] then None else Some (sum_list vs / of_nat (length vs)))"

definition agg_min :: "rat list \<Rightarrow> rat option" where
  "agg_min vs = (case vs of [] \<Rightarrow> None | v # ws \<Rightarrow> Some (fold min ws v))"

definition agg_max :: "rat list \<Rightarrow> rat option" where
  "agg_max vs = (case vs of [] \<Rightarrow> None | v # ws \<Rightarrow> Some (fold max ws v))"

subsection \<open>\<open>calculate_calorie_stats\<close>\<close>

text \<open>A row of the result: restaurant, mean, min and max of its calories.\<close>

type_synonym calorie_stat = "string \<times> rat option \<times> rat option \<times> rat option"

definition calorie_stats_of :: "frame \<Rightarrow> calorie_stat list" where
  "calorie_stats_of d =
     map (\<lambda>k. let vs = nums (map calories (group_rows d k))
              in (k, agg_mean vs, agg_min vs, agg_max vs))
         (group_keys d)"

definition calculate_calorie_stats_body :: "frame option \<Rightarrow> exn + calorie_stat list" where
  "calculate_calorie_stats_body data =
     (case data of
        None \<Rightarrow> Inl AttributeError
      | Some d \<Rightarrow>
          if numeric_column (map calories d) then Inr (calorie_stats_of d) else Inl TypeError)"

definition calculate_calorie_stats ::
  "frame option \<Rightarrow> (exn + calorie_stat list option) \<times> log_entry list" where
  "calculate_calorie_stats data =
     try_except (calculate_calorie_stats_body data)
       ''Calorie statistics calculated successfully.''
       ''Error calculating calorie statistics: {}''"

subsection \<open>\<open>rank_restaurants_by_carbs\<close>\<close>

type_synonym carb_stat = "string \<times> rat option"

definition carb_means :: "frame \<Rightarrow> carb_stat list" where
  "carb_means d =
     map (\<lambda>k. (k, agg_mean (nums (map total_carb (group_rows d k))))) (group_keys d)"

text \<open>
  \<open>Series.sort_values()\<close> with its defaults: ascending, \<open>NaN\<close> last, and
  \<open>kind='quicksort'\<close>, for which pandas promises a sorted rearrangement and nothing
  about the order of equal values. The sorting routine is not code of this program, so
  it is a parameter \<open>srt\<close> of the model, applied to the entries that have a value; the
  entries without one follow in the order they had.
\<close>

fun present :: "carb_stat list \<Rightarrow> (string \<times> rat) list" where
  "present [] = []"
| "present ((k, Some v) # xs) = (k, v) # present xs"
| "present ((k, None) # xs) = present xs"

definition sort_values :: "((string \<times> rat) list \<Rightarrow> (string \<times> rat) list) \<Rightarrow> carb_stat list \<Rightarrow> carb_stat list" where
  "sort_values srt xs =
     map (\<lambda>(k, v). (k, Some v)) (srt (present xs)) @ filter (\<lambda>x. snd x = None) xs"

definition rank_restaurants_by_carbs_body ::
  "((string \<times> rat) list \<Rightarrow> (string \<times> rat) list) \<Rightarrow> frame option \<Rightarrow> exn + carb_stat list" where
  "rank_restaurants_by_carbs_body srt data =
     (case data of
        None \<Rightarrow> Inl AttributeError
      | Some d \<Rightarrow>
          if numeric_column (map total_carb d)
          then Inr (take 5 (sort_values srt (carb_means d)))
          else Inl TypeError)"

definition rank_restaurants_by_carbs ::
  "((string \<times> rat) list \<Rightarrow> (string \<times> rat) list) \<Rightarrow> frame option
     \<Rightarrow> (exn + carb_stat list option) \<times> log_entry list" where
  "rank_restaurants_by_carbs srt data =
     try_except (rank_restaurants_by_carbs_body srt data)
       ''Restaurants ranked by carbs on average successfully.''
       ''Error ranking restaurants by carbs: {}''"

text \<open>What pandas documents of the sorting routine.\<close>

definition sorts_ascending :: "((string \<times> rat) list \<Rightarrow> (string \<times> rat) list) \<Rightarrow> bool" where
  "sorts_ascending srt = (\<forall>xs. mset (srt xs) = mset xs \<and> sorted (map snd (srt xs)))"

text \<open>A sorting routine with the documented behaviour: insertion sort.\<close>

definition stable_sort :: "(string \<times> rat) list \<Rightarrow> (string \<times> rat) list" where
  "stable_sort xs = sort_key snd xs"

text \<open>The order of the averages in the result: ascending, a missing average last.\<close>

fun avg_le :: "rat option \<Rightarrow> rat option \<Rightarrow> bool" where
  "avg_le (Some a) (Some b) = (a \<le> b)"
| "avg_le _ None = True"
| "avg_le None (Some b) = False"

section \<open>The operations at the boundary\<close>













section \<open>Classification as the pipeline runs it\<close>

text \<open>
  \<open>main\<close> passes the value returned by \<open>categorize_food_items\<close> to
  \<open>add_subcategory\<close>. \<open>classify\<close> is the value the second call returns (\<open>None\<close> after a
  failure of either step), when no exception escapes.
\<close>

definition classify :: "frame option \<Rightarrow> exn + frame option" where
  "classify data =
     bind_exn (fst (categorize_food_items data)) (\<lambda>categorized_data.
       fst (add_subcategory categorized_data))"

section \<open>Definitions that follow the specification, and example data\<close>

text \<open>
  The rule table of the specification for stage 1: ordered groups of keywords, tested by
  case-insensitive substring match (\<open>sublist\<close> is the library's notion of a contiguous
  sublist); the first group with a matching keyword gives the label, and \<open>Other\<close> is
  the label when no group matches.
\<close>

definition keyword_groups :: "(string \<times> string list) list" where
  "keyword_groups =
     [(''Main'', [''burger'', ''sandwich'', ''pizza'']),
      (''Side'', [''fries'', ''salad'']),
      (''Dessert'', [''ice cream'', ''cake''])]"

definition matches :: "string \<Rightarrow> string \<Rightarrow> bool" where
  "matches keyword name = sublist (lower keyword) (lower name)"

fun first_matching_group :: "(string \<times> string list) list \<Rightarrow> string \<Rightarrow> string" where
  "first_matching_group [] name = ''Other''"
| "first_matching_group ((label, keywords) # groups) name =
     (if \<exists>keyword \<in> set keywords. matches keyword name then label
      else first_matching_group groups name)"

definition burger_cake :: row where
  "burger_cake = \<lparr>restaurant = ''Diner'', item = Str ''Cheeseburger with Cake'',
     calories = Num 900, total_carb = Num 80, category = None, sub_category = None\<rparr>"

text \<open>
  The effect of the two classification steps on a single row, used to describe the
  frames they return: \<open>categorized\<close> writes the value of \<open>categorize_item\<close>,
  \<open>subcategorized\<close> the value of \<open>get_subcategory\<close>.
\<close>

definition categorized :: "row \<Rightarrow> row" where
  "categorized r = r\<lparr>category := Some (Str (projr (categorize_item r)))\<rparr>"

definition subcategorized :: "row \<Rightarrow> row" where
  "subcategorized r = r\<lparr>sub_category := Some (Str (projr (get_subcategory r)))\<rparr>"

definition classified :: "row \<Rightarrow> row" where
  "classified r = subcategorized (categorized r)"

text \<open>Menu items used as concrete inputs.\<close>

definition chicken_sandwich :: row where
  "chicken_sandwich = \<lparr>restaurant = ''Diner'', item = Str ''Chicken Sandwich'',
     calories = Num 500, total_carb = Num 40, category = Some (Str ''Main''), sub_category = None\<rparr>"

definition beef_pork_burger :: row where
  "beef_pork_burger = \<lparr>restaurant = ''Diner'', item = Str ''Beef and Pork Burger'',
     calories = Num 700, total_carb = Num 45, category = Some (Str ''Main''), sub_category = None\<rparr>"

definition menu :: frame where
  "menu =
     [\<lparr>restaurant = ''Diner'', item = Str ''Chicken Sandwich'', calories = Num 500,
        total_carb = Num 40, category = None, sub_category = None\<rparr>,
      \<lparr>restaurant = ''Diner'', item = Str ''Side Salad'', calories = Num 150,
        total_carb = Num 12, category = None, sub_category = None\<rparr>,
      \<lparr>restaurant = ''Grill'', item = Str ''Mystery Item'', calories = Num 300,
        total_carb = Num 30, category = None, sub_category = None\<rparr>]"

definition menu_classified :: frame where
  "menu_classified =
     [\<lparr>restaurant = ''Diner'', item = Str ''Chicken Sandwich'', calories = Num 500,
        total_carb = Num 40, category = Some (Str ''Main''),
        sub_category = Some (Str ''Chicken,Other'')\<rparr>,
      \<lparr>restaurant = ''Diner'', item = Str ''Side Salad'', calories = Num 150,
        total_carb = Num 12, category = Some (Str ''Side''), sub_category = Some (Str [])\<rparr>,
      \<lparr>restaurant = ''Grill'', item = Str ''Mystery Item'', calories = Num 300,
        total_carb = Num 30, category = Some (Str ''Other''), sub_category = Some (Str [])\<rparr>]"

text \<open>
  Six restaurants whose averages of \<open>total_carb\<close> are A = 10 (two items, 8 and 12),
  B = 5, C = 20, D = 1, E = 15 and F = 8.
\<close>

definition six_restaurants :: frame where
  "six_restaurants =
     [\<lparr>restaurant = ''A'', item = Str ''Burger'', calories = Num 500, total_carb = Num 8,
        category = None, sub_category = None\<rparr>,
      \<lparr>restaurant = ''B'', item = Str ''Salad'', calories = Num 100, total_carb = Num 5,
        category = None, sub_category = None\<rparr>,
      \<lparr>restaurant = ''C'', item = Str ''Pizza'', calories = Num 800, total_carb = Num 20,
        category = None, sub_category = None\<rparr>,
      \<lparr>restaurant = ''A'', item = Str ''Fries'', calories = Num 300, total_carb = Num 12,
        category = None, sub_category = None\<rparr>,
      \<lparr>restaurant = ''D'', item = Str ''Water'', calories = Num 0, total_carb = Num 1,
        category = None, sub_category = None\<rparr>,
      \<lparr>restaurant = ''E'', item = Str ''Cake'', calories = Num 400, total_carb = Num 15,
        category = None, sub_category = None\<rparr>,
      \<lparr>restaurant = ''F'', item = Str ''Soup'', calories = Num 200, total_carb = Num 8,
        category = None, sub_category = None\<rparr>]"

text \<open>The log of a successful ranking.\<close>

definition ranked_info :: "log_entry list" where
  "ranked_info = [INFO ''Restaurants ranked by carbs on average successfully.'']"

text \<open>Two restaurants with the same average of \<open>total_carb\<close>.\<close>

definition tied :: frame where
  "tied =
     [\<lparr>restaurant = ''A'', item = Str ''Burger'', calories = Num 500, total_carb = Num 5,
        category = None, sub_category = None\<rparr>,
      \<lparr>restaurant = ''B'', item = Str ''Salad'', calories = Num 100, total_carb = Num 5,
        category = None, sub_category = None\<rparr>]"

text \<open>A frame in which one record has a text instead of a number in \<open>calories\<close>.\<close>

definition bad_calories :: frame where
  "bad_calories =
     [\<lparr>restaurant = ''Diner'', item = Str ''Burger'', calories = Num 500, total_carb = Num 40,
        category = None, sub_category = None\<rparr>,
      \<lparr>restaurant = ''Grill'', item = Str ''Salad'', calories = Str ''n/a'', total_carb = Num 12,
        category = None, sub_category = None\<rparr>]"

text \<open>The log of a failed computation of the calorie statistics.\<close>

definition stats_error :: "log_entry list" where
  "stats_error = [ERROR ''Error calculating calorie statistics: {}'' TypeError]"



section \<open>Strings: substring test and lower-casing\<close>

lemma str_in_sublist: "str_in k s = sublist k s"
  by (induction s) (auto simp: sublist_Cons_right)

lemma str_in_set: "str_in k s \<Longrightarrow> set k \<subseteq> set s"
  by (simp add: str_in_sublist set_mono_sublist)

lemma lower_char_not_upper:
  "\<not> (65 \<le> (of_char (lower_char c) :: nat) \<and> (of_char (lower_char c) :: nat) \<le> 90)"
  by (auto simp: lower_char_def Let_def)

lemma upper_not_in_lower:
  assumes "65 \<le> (of_char u :: nat)" "(of_char u :: nat) \<le> 90"
  shows "u \<notin> set (lower s)"
  using assms lower_char_not_upper by (auto simp: lower_def)

lemma capitalised_not_in_lower:
  assumes "65 \<le> (of_char u :: nat)" "(of_char u :: nat) \<le> 90"
  shows "\<not> str_in (u # k) (lower s)"
  using upper_not_in_lower[OF assms, of s] str_in_set[of "u # k" "lower s"] by auto

lemma lower_keywords:
  "lower ''burger'' = ''burger''" "lower ''sandwich'' = ''sandwich''" "lower ''pizza'' = ''pizza''"
  "lower ''fries'' = ''fries''" "lower ''salad'' = ''salad''"
  "lower ''ice cream'' = ''ice cream''" "lower ''cake'' = ''cake''"
  by code_simp+

section \<open>Stage 1: the category\<close>

lemma categorize_name_refines:
  "categorize_name name = first_matching_group keyword_groups name"
  by (simp add: categorize_name_def keyword_groups_def main_keywords_def side_keywords_def
      dessert_keywords_def matches_def lower_keywords str_in_sublist)

text \<open>
  Claim C2. On an item that is a string, \<open>categorize_item\<close> returns the label of the
  first group of the ordered rule table (Main, then Side, then Dessert) that has a keyword
  occurring case-insensitively in the name, and \<open>Other\<close> when no group matches; the
  result is one of the four categories; a name that contains both \<open>burger\<close> and
  \<open>cake\<close> is \<open>Main\<close>.
\<close>

theorem categorize_item_first_group_wins:
  assumes "item r = Str name"
  shows "categorize_item r = Inr (first_matching_group keyword_groups name)
       \<and> first_matching_group keyword_groups name \<in> {''Main'', ''Side'', ''Dessert'', ''Other''}
       \<and> (matches ''burger'' name \<and> matches ''cake'' name
            \<longrightarrow> categorize_item r = Inr ''Main'')"
proof -
  have c: "categorize_item r = Inr (categorize_name name)"
    using assms by (simp add: categorize_item_def)
  have "first_matching_group keyword_groups name \<in> {''Main'', ''Side'', ''Dessert'', ''Other''}"
    by (simp add: keyword_groups_def)
  moreover have "matches ''burger'' name \<Longrightarrow> first_matching_group keyword_groups name = ''Main''"
    by (simp add: keyword_groups_def)
  ultimately show ?thesis
    using c by (simp add: categorize_name_refines)
qed

theorem categorize_item_first_group_wins_witness:
  "item burger_cake = Str ''Cheeseburger with Cake''
   \<and> matches ''burger'' ''Cheeseburger with Cake'' \<and> matches ''cake'' ''Cheeseburger with Cake''
   \<and> categorize_item burger_cake = Inr ''Main''"
proof -
  have i: "item burger_cake = Str ''Cheeseburger with Cake''"
    by (simp add: burger_cake_def)
  have b: "matches ''burger'' ''Cheeseburger with Cake''"
    unfolding matches_def str_in_sublist[symmetric] by code_simp
  have k: "matches ''cake'' ''Cheeseburger with Cake''"
    unfolding matches_def str_in_sublist[symmetric] by code_simp
  have "categorize_item burger_cake = Inr ''Main''"
    using categorize_item_first_group_wins[OF i] b k by blast
  then show ?thesis
    using i b k by simp
qed

section \<open>Stage 2: the subcategory\<close>

lemma guard_never_fails:
  "\<not> str_in ''Chicken'' (lower s)" "\<not> str_in ''Beef'' (lower s)"
  "\<not> str_in ''Seafood'' (lower s)" "\<not> str_in ''Pork'' (lower s)"
  by (rule capitalised_not_in_lower; simp)+

lemma main_subcategories_eq:
  "main_subcategories name =
     (if str_in ''chicken'' (lower name) then [''Chicken''] else []) @
     (if str_in ''beef'' (lower name) then [''Beef''] else []) @
     (if str_in ''seafood'' (lower name) then [''Seafood''] else []) @
     (if str_in ''pork'' (lower name) then [''Pork''] else []) @ [''Other'']"
  by (simp add: main_subcategories_def Let_def guard_never_fails)

lemma main_subcategories_Other:
  "\<exists>labels. set labels \<subseteq> {''Chicken'', ''Beef'', ''Seafood'', ''Pork''}
      \<and> main_subcategories name = labels @ [''Other'']"
  by (auto simp: main_subcategories_eq)

lemma join_snoc_nonempty: "y \<noteq> [] \<Longrightarrow> join sep (xs @ [y]) \<noteq> []"
  by (induction sep xs rule: join.induct) (auto simp: neq_Nil_conv)

lemma join_snoc_suffix: "suffix y (join sep (xs @ [y]))"
proof (induction sep xs rule: join.induct)
  case (3 sep x y' ys)
  then show ?case by (simp add: suffix_append)
qed (simp_all add: suffix_def)

text \<open>
  Claim C9. For every row of category \<open>Main\<close> whose item is a string, the list of
  labels built by \<open>get_subcategory\<close> ends with \<open>Other\<close>, whatever protein keywords
  matched before: the guard tests the capitalised labels against the lower-cased name
  and so holds for every item. The column value, the labels joined by commas, ends with
  \<open>Other\<close> as well.
\<close>

theorem main_item_always_gets_Other:
  assumes "category r = Some (Str ''Main'')" and "item r = Str name"
  shows "\<exists>labels. set labels \<subseteq> {''Chicken'', ''Beef'', ''Seafood'', ''Pork''}
           \<and> subcategories_of r = Inr (labels @ [''Other''])
           \<and> get_subcategory r = Inr (join '','' (labels @ [''Other'']))
           \<and> suffix ''Other'' (join '','' (labels @ [''Other'']))"
proof -
  obtain labels where l: "set labels \<subseteq> {''Chicken'', ''Beef'', ''Seafood'', ''Pork''}"
    "main_subcategories name = labels @ [''Other'']"
    using main_subcategories_Other by blast
  have s: "subcategories_of r = Inr (labels @ [''Other''])"
    using assms l(2) by (simp add: subcategories_of_def)
  then have "get_subcategory r = Inr (join '','' (labels @ [''Other'']))"
    by (simp add: get_subcategory_def bind_exn_def)
  with l(1) s show ?thesis
    using join_snoc_suffix by blast
qed

theorem main_item_always_gets_Other_witness:
  "category chicken_sandwich = Some (Str ''Main'') \<and> item chicken_sandwich = Str ''Chicken Sandwich''
   \<and> str_in ''chicken'' (lower ''Chicken Sandwich'')
   \<and> subcategories_of chicken_sandwich = Inr [''Chicken'', ''Other'']"
proof -
  have c: "category chicken_sandwich = Some (Str ''Main'')"
    and i: "item chicken_sandwich = Str ''Chicken Sandwich''"
    by (simp_all add: chicken_sandwich_def)
  have m: "str_in ''chicken'' (lower ''Chicken Sandwich'')" by code_simp
  obtain labels where "subcategories_of chicken_sandwich = Inr (labels @ [''Other''])"
    using main_item_always_gets_Other[OF c i] by blast
  moreover have "subcategories_of chicken_sandwich = Inr [''Chicken'', ''Other'']"
    by code_simp
  ultimately show ?thesis using c i m by simp
qed

text \<open>
  Claim C1, evaluated on the code. The claim expects \<open>{Chicken}\<close> for
  "Chicken Sandwich" and \<open>{Beef, Pork}\<close> for "Beef and Pork Burger", and \<open>Other\<close>
  only when no protein keyword matches. The code returns the matched labels in scan
  order followed by \<open>Other\<close> in both cases.
\<close>

theorem get_subcategory_examples:
  "get_subcategory chicken_sandwich = Inr ''Chicken,Other''
   \<and> get_subcategory beef_pork_burger = Inr ''Beef,Pork,Other''"
  by code_simp

section \<open>The classification steps on a frame\<close>

lemma map_rows_cases:
  "(\<exists>e. map_rows f d = Inl e \<and> (\<exists>r \<in> set d. f r = Inl e)) \<or>
   (map_rows f d = Inr (map (\<lambda>r. projr (f r)) d) \<and> (\<forall>r \<in> set d. \<not> isl (f r)))"
  by (induction d) (auto split: sum.splits)

lemma categorize_item_isl: "isl (categorize_item r) = (\<not> is_text (item r))"
  by (cases "item r") (simp_all add: categorize_item_def)

lemma categorize_item_raises: "categorize_item r = Inl e \<Longrightarrow> e = AttributeError"
  by (cases "item r") (simp_all add: categorize_item_def)

lemma get_subcategory_raises: "get_subcategory r = Inl e \<Longrightarrow> is_Exception e"
  by (auto simp: get_subcategory_def subcategories_of_def bind_exn_def
      split: option.splits if_splits cell.splits)

text \<open>On a frame without rows both steps fail in the assignment of the column.\<close>

lemma categorize_item_probe: "categorize_item probe_row = Inl AttributeError"
  by (simp add: categorize_item_def probe_row_def)

lemma get_subcategory_probe: "get_subcategory probe_row = Inl (KeyError ''category'')"
  by (simp add: get_subcategory_def subcategories_of_def bind_exn_def probe_row_def)

lemma categorize_food_items_body_empty: "categorize_food_items_body (Some []) = Inl ValueError"
  by (simp add: categorize_food_items_body_def apply_rows_def categorize_item_probe
      bind_exn_def set_category_def)

lemma add_subcategory_body_empty: "add_subcategory_body (Some []) = Inl ValueError"
  by (simp add: add_subcategory_body_def apply_rows_def get_subcategory_probe
      bind_exn_def set_sub_category_def)

text \<open>On a frame with rows they write the value computed for each row.\<close>

lemma set_category_map:
  "set_category d (Series (map (\<lambda>r. projr (categorize_item r)) d)) = Inr (map categorized d)"
  by (simp add: set_category_def categorized_def zip_map2 zip_same_conv_map)

lemma set_sub_category_map:
  "set_sub_category d (Series (map (\<lambda>r. projr (get_subcategory r)) d)) = Inr (map subcategorized d)"
  by (simp add: set_sub_category_def subcategorized_def zip_map2 zip_same_conv_map)

lemma categorize_food_items_body_Some:
  "categorize_food_items_body (Some d) =
     (if d = [] then Inl ValueError
      else if list_all (\<lambda>r. is_text (item r)) d then Inr (map categorized d)
      else Inl AttributeError)"
proof (cases "d = []")
  case True
  then show ?thesis by (simp add: categorize_food_items_body_empty)
next
  case False
  consider e where "map_rows categorize_item d = Inl e" "\<exists>r \<in> set d. categorize_item r = Inl e"
    | "map_rows categorize_item d = Inr (map (\<lambda>r. projr (categorize_item r)) d)"
      "\<forall>r \<in> set d. \<not> isl (categorize_item r)"
    using map_rows_cases[of categorize_item d] by blast
  then show ?thesis
  proof cases
    case 1
    then obtain r where r: "r \<in> set d" "categorize_item r = Inl e" by blast
    then have "\<not> is_text (item r)" using categorize_item_isl[of r] by simp
    with r(1) have "\<not> list_all (\<lambda>r. is_text (item r)) d" by (auto simp: list_all_iff)
    moreover have "e = AttributeError" using r(2) by (rule categorize_item_raises)
    ultimately show ?thesis
      using 1(1) False by (simp add: categorize_food_items_body_def apply_rows_def bind_exn_def)
  next
    case 2
    then have "list_all (\<lambda>r. is_text (item r)) d"
      by (simp add: list_all_iff categorize_item_isl)
    then show ?thesis
      using 2(1) False
      by (simp add: categorize_food_items_body_def apply_rows_def bind_exn_def set_category_map)
  qed
qed

lemma add_subcategory_body_Some:
  "(d \<noteq> [] \<and> list_all (\<lambda>r. \<not> isl (get_subcategory r)) d
      \<and> add_subcategory_body (Some d) = Inr (map subcategorized d)) \<or>
   ((d = [] \<or> \<not> list_all (\<lambda>r. \<not> isl (get_subcategory r)) d)
      \<and> (\<exists>e. is_Exception e \<and> add_subcategory_body (Some d) = Inl e))"
proof (cases "d = []")
  case True
  then show ?thesis by (simp add: add_subcategory_body_empty)
next
  case False
  consider e where "map_rows get_subcategory d = Inl e" "\<exists>r \<in> set d. get_subcategory r = Inl e"
    | "map_rows get_subcategory d = Inr (map (\<lambda>r. projr (get_subcategory r)) d)"
      "\<forall>r \<in> set d. \<not> isl (get_subcategory r)"
    using map_rows_cases[of get_subcategory d] by blast
  then show ?thesis
  proof cases
    case 1
    then obtain r where r: "r \<in> set d" "get_subcategory r = Inl e" by blast
    then have "isl (get_subcategory r)" by simp
    with r(1) have "\<not> list_all (\<lambda>r. \<not> isl (get_subcategory r)) d" by (auto simp: list_all_iff)
    moreover have "is_Exception e" using r(2) by (rule get_subcategory_raises)
    moreover have "add_subcategory_body (Some d) = Inl e"
      using 1(1) False by (simp add: add_subcategory_body_def apply_rows_def bind_exn_def)
    ultimately show ?thesis by blast
  next
    case 2
    then have "list_all (\<lambda>r. \<not> isl (get_subcategory r)) d"
      by (simp add: list_all_iff)
    moreover have "add_subcategory_body (Some d) = Inr (map subcategorized d)"
      using 2(1) False
      by (simp add: add_subcategory_body_def apply_rows_def bind_exn_def set_sub_category_map)
    ultimately show ?thesis using False by blast
  qed
qed

lemma categorize_food_items_Some:
  "fst (categorize_food_items (Some d)) =
     Inr (if d \<noteq> [] \<and> list_all (\<lambda>r. is_text (item r)) d then Some (map categorized d) else None)"
  by (simp add: categorize_food_items_def categorize_food_items_body_Some try_except_def)

lemma add_subcategory_Some:
  "fst (add_subcategory (Some d)) =
     Inr (if d \<noteq> [] \<and> list_all (\<lambda>r. \<not> isl (get_subcategory r)) d
          then Some (map subcategorized d) else None)"
  using add_subcategory_body_Some[of d]
  by (auto simp: add_subcategory_def try_except_def)

lemma categorize_food_items_None: "fst (categorize_food_items None) = Inr None"
  by (simp add: categorize_food_items_def categorize_food_items_body_def try_except_def)

lemma add_subcategory_None: "fst (add_subcategory None) = Inr None"
  by (simp add: add_subcategory_def add_subcategory_body_def try_except_def)

lemma categorized_row:
  "item r = Str name \<Longrightarrow> categorized r = r\<lparr>category := Some (Str (categorize_name name))\<rparr>"
  by (simp add: categorized_def categorize_item_def)

lemma get_subcategory_categorized:
  "item r = Str name \<Longrightarrow> category r = Some (Str c) \<Longrightarrow>
   get_subcategory r = Inr (if c = ''Main'' then join '','' (main_subcategories name) else [])"
  by (simp add: get_subcategory_def subcategories_of_def bind_exn_def)

lemma classified_row:
  assumes "item r = Str name"
  shows "classified r = r\<lparr>category := Some (Str (categorize_name name)),
           sub_category := Some (Str (if categorize_name name = ''Main''
                                      then join '','' (main_subcategories name) else []))\<rparr>"
proof -
  let ?r1 = "r\<lparr>category := Some (Str (categorize_name name))\<rparr>"
  have c: "categorized r = ?r1" using assms by (rule categorized_row)
  have "get_subcategory ?r1 = Inr (if categorize_name name = ''Main''
                                      then join '','' (main_subcategories name) else [])"
    by (rule get_subcategory_categorized) (simp_all add: assms)
  then show ?thesis
    by (simp add: classified_def c subcategorized_def)
qed

lemma classify_Some:
  "classify (Some d) =
     Inr (if d \<noteq> [] \<and> list_all (\<lambda>r. is_text (item r)) d then Some (map classified d) else None)"
proof (cases "d \<noteq> [] \<and> list_all (\<lambda>r. is_text (item r)) d")
  case False
  then have "fst (categorize_food_items (Some d)) = Inr None"
    unfolding categorize_food_items_Some by (simp only: if_False)
  then show ?thesis
    using False by (simp only: classify_def bind_exn_def sum.case add_subcategory_None if_False)
next
  case True
  have "\<not> isl (get_subcategory (categorized r))" if "r \<in> set d" for r
  proof -
    from True that have "is_text (item r)" by (simp add: list_all_iff)
    then obtain name where n: "item r = Str name" by (cases "item r") simp_all
    show ?thesis
      by (simp add: categorized_row[OF n] get_subcategory_categorized[where name = name] n)
  qed
  then have "list_all (\<lambda>r. \<not> isl (get_subcategory r)) (map categorized d)"
    by (simp add: list_all_iff)
  with True show ?thesis
    by (simp add: classify_def categorize_food_items_Some bind_exn_def add_subcategory_Some
        classified_def)
qed

lemma classify_None: "classify None = Inr None"
  by (simp add: classify_def categorize_food_items_None bind_exn_def add_subcategory_None)

section \<open>Invariant and idempotence of classification\<close>

lemma join_labels_nonempty: "join '','' (main_subcategories name) \<noteq> []"
proof -
  obtain labels where "main_subcategories name = labels @ [''Other'']"
    using main_subcategories_Other by blast
  then show ?thesis by (simp add: join_snoc_nonempty)
qed

lemma categorize_name_range: "categorize_name name \<in> {''Main'', ''Side'', ''Dessert'', ''Other''}"
  by (simp add: categorize_name_def)

text \<open>
  Claim C3. In the frame returned by the two classification steps, every row has a
  category among \<open>Main\<close>, \<open>Side\<close>, \<open>Dessert\<close>, \<open>Other\<close>, and its
  \<open>sub_category\<close> is the empty string exactly when the category is not \<open>Main\<close>.
\<close>

theorem classified_rows_invariant:
  assumes "classify data = Inr (Some d')" and "r \<in> set d'"
  shows "\<exists>c s. category r = Some (Str c) \<and> c \<in> {''Main'', ''Side'', ''Dessert'', ''Other''}
            \<and> sub_category r = Some (Str s) \<and> (s = [] \<longleftrightarrow> c \<noteq> ''Main'')"
proof -
  obtain d where d: "data = Some d"
    using assms(1) by (cases data) (simp_all add: classify_None)
  have t: "list_all (\<lambda>r. is_text (item r)) d" and d': "d' = map classified d"
    using assms(1) unfolding d classify_Some by (simp_all split: if_splits)
  obtain r0 where r0: "r0 \<in> set d" "r = classified r0"
    using assms(2) d' by auto
  then have "is_text (item r0)" using t by (simp add: list_all_iff)
  then obtain name where n: "item r0 = Str name" by (cases "item r0") simp_all
  let ?c = "categorize_name name"
  let ?s = "if ?c = ''Main'' then join '','' (main_subcategories name) else []"
  have "category r = Some (Str ?c)" "sub_category r = Some (Str ?s)"
    by (simp_all add: r0(2) classified_row[OF n])
  moreover have "?c \<in> {''Main'', ''Side'', ''Dessert'', ''Other''}"
    by (rule categorize_name_range)
  moreover have "?s = [] \<longleftrightarrow> ?c \<noteq> ''Main''"
    by (simp add: join_labels_nonempty)
  ultimately show ?thesis by blast
qed

theorem classified_rows_invariant_witness:
  "classify (Some menu) = Inr (Some menu_classified)
   \<and> menu_classified ! 0 \<in> set menu_classified
   \<and> category (menu_classified ! 0) = Some (Str ''Main'')
   \<and> sub_category (menu_classified ! 0) = Some (Str ''Chicken,Other'')
   \<and> (\<exists>c s. category (menu_classified ! 0) = Some (Str c)
          \<and> c \<in> {''Main'', ''Side'', ''Dessert'', ''Other''}
          \<and> sub_category (menu_classified ! 0) = Some (Str s) \<and> (s = [] \<longleftrightarrow> c \<noteq> ''Main''))"
proof -
  have c: "classify (Some menu) = Inr (Some menu_classified)"
    by code_simp
  have m: "menu_classified ! 0 \<in> set menu_classified"
    by (simp add: menu_classified_def)
  have v: "category (menu_classified ! 0) = Some (Str ''Main'')"
    "sub_category (menu_classified ! 0) = Some (Str ''Chicken,Other'')"
    by (simp_all add: menu_classified_def)
  show ?thesis
    using classified_rows_invariant[OF c m] c m v by blast
qed

lemma classified_text: "is_text (item r) \<Longrightarrow> is_text (item (classified r))"
  by (cases "item r") (simp_all add: classified_row)

lemma classified_twice: "is_text (item r) \<Longrightarrow> classified (classified r) = classified r"
proof -
  assume "is_text (item r)"
  then obtain name where n: "item r = Str name" by (cases "item r") simp_all
  have n': "item (classified r) = Str name" by (simp add: classified_row[OF n] n)
  show ?thesis
    unfolding classified_row[OF n'] by (simp add: classified_row[OF n])
qed

text \<open>
  Claim C8. Classification never raises, and classifying its own result again returns
  that result unchanged: the columns \<open>category\<close> and \<open>sub_category\<close> of every row
  are the same after the second run, because both are computed from the item name, which
  classification does not change. After a failed run, which includes the run on a frame
  without rows, the value is \<open>None\<close>, and so is the value of a run on \<open>None\<close>.
\<close>

theorem classify_idempotent: "\<exists>v. classify data = Inr v \<and> classify v = Inr v"
proof (cases data)
  case None
  then show ?thesis by (simp add: classify_None)
next
  case (Some d)
  show ?thesis
  proof (cases "d \<noteq> [] \<and> list_all (\<lambda>r. is_text (item r)) d")
    case False
    then have "classify (Some d) = Inr None"
      unfolding classify_Some by (simp only: if_False)
    then show ?thesis by (simp add: Some classify_None)
  next
    case True
    then have "map classified d \<noteq> [] \<and> list_all (\<lambda>r. is_text (item r)) (map classified d)"
      by (simp add: list_all_iff classified_text)
    moreover have "map classified (map classified d) = map classified d"
      using True by (simp add: list_all_iff classified_twice)
    ultimately have "classify (Some (map classified d)) = Inr (Some (map classified d))"
      by (simp add: classify_Some)
    then show ?thesis using True by (simp add: Some classify_Some)
  qed
qed

section \<open>Grouping, sorting and ranking\<close>

lemma group_keys_set: "set (group_keys d) = restaurant ` set d"
  by (simp add: group_keys_def)

lemma group_keys_length: "length (group_keys d) = card (restaurant ` set d)"
proof -
  have "distinct (group_keys d)" by (simp add: group_keys_def)
  then show ?thesis using distinct_card[of "group_keys d"] by (simp add: group_keys_set)
qed

lemma carb_means_fst: "map fst (carb_means d) = group_keys d"
  by (simp add: carb_means_def comp_def)

lemma present_filter:
  "map (\<lambda>(k, v). (k, Some v)) (present xs) = filter (\<lambda>x. snd x \<noteq> None) xs"
  by (induction xs rule: present.induct) simp_all

lemma sort_values_mset:
  assumes "sorts_ascending srt"
  shows "mset (sort_values srt xs) = mset xs"
proof -
  have "mset (srt (present xs)) = mset (present xs)"
    using assms by (simp add: sorts_ascending_def)
  then have "mset (map (\<lambda>(k, v). (k, Some v)) (srt (present xs)))
           = mset (map (\<lambda>(k, v). (k, Some v)) (present xs))"
    by (metis mset_map)
  also have "\<dots> = mset (filter (\<lambda>x. snd x \<noteq> None) xs)"
    by (simp only: present_filter)
  finally show ?thesis
    by (simp add: sort_values_def)
qed

lemma sort_values_ascending:
  assumes "sorts_ascending srt"
  shows "sorted_wrt (\<lambda>x y. avg_le (snd x) (snd y)) (sort_values srt xs)"
proof -
  have "sorted (map snd (srt (present xs)))"
    using assms by (simp add: sorts_ascending_def)
  then have "sorted_wrt (\<lambda>x y. snd x \<le> snd y) (srt (present xs))"
    by (simp add: sorted_map)
  then have 1: "sorted_wrt (\<lambda>x y. avg_le (snd x) (snd y))
                  (map (\<lambda>(k, v). (k, Some v)) (srt (present xs)))"
    by (simp add: sorted_wrt_map case_prod_beta)
  have 2: "sorted_wrt (\<lambda>x y. avg_le (snd x) (snd y)) (filter (\<lambda>x. snd x = None) xs)"
    by (induction xs) auto
  show ?thesis
    unfolding sort_values_def using 1 2 by (auto simp: sorted_wrt_append)
qed

lemma sorted_wrt_take_drop:
  assumes "sorted_wrt R xs"
  shows "sorted_wrt R (take n xs)" and "\<forall>y \<in> set (take n xs). \<forall>x \<in> set (drop n xs). R y x"
proof -
  have "sorted_wrt R (take n xs @ drop n xs)" using assms by simp
  then show "sorted_wrt R (take n xs)" "\<forall>y \<in> set (take n xs). \<forall>x \<in> set (drop n xs). R y x"
    unfolding sorted_wrt_append by blast+
qed

lemma stable_sort_ok: "sorts_ascending stable_sort"
  by (simp add: sorts_ascending_def stable_sort_def)

lemma filter_key_distinct:
  assumes "distinct (map f xs)" and "k \<in> set xs"
  shows "filter (\<lambda>x. f k = f x) xs = [k]"
  using assms
proof (induction xs)
  case Nil
  then show ?case by simp
next
  case (Cons a xs)
  show ?case
  proof (cases "a = k")
    case True
    have "filter (\<lambda>x. f k = f x) xs = []"
      using Cons.prems(1) True by (auto simp: filter_empty_conv)
    then show ?thesis using True by simp
  next
    case False
    then have k: "k \<in> set xs" using Cons.prems(2) by simp
    then have "f k \<in> f ` set xs" by (rule imageI)
    moreover have "f a \<notin> f ` set xs" using Cons.prems(1) by simp
    ultimately have "f k \<noteq> f a" by metis
    then show ?thesis using Cons k by simp
  qed
qed

lemma sort_unique:
  assumes "sorts_ascending srt" and "distinct (map snd p)"
  shows "srt p = sort_key snd p"
proof -
  have m: "mset (srt p) = mset p" and s: "sorted (map snd (srt p))"
    using assms(1) by (simp_all add: sorts_ascending_def)
  have "mset (map snd (srt p)) = mset (map snd p)"
    using m by (metis mset_map)
  then have d: "distinct (map snd (srt p))"
    using assms(2) mset_eq_imp_distinct_iff by blast
  have "filter (\<lambda>x. snd k = snd x) (srt p) = filter (\<lambda>x. snd k = snd x) p" if "k \<in> set (srt p)" for k
  proof -
    have "k \<in> set p" using that m mset_eq_setD by blast
    then show ?thesis
      using that by (simp add: filter_key_distinct[OF d] filter_key_distinct[OF assms(2)])
  qed
  then show ?thesis
    using properties_for_sort_key[OF m _ s] by simp
qed

lemma six_means:
  "carb_means six_restaurants =
     [(''A'', Some 10), (''B'', Some 5), (''C'', Some 20), (''D'', Some 1), (''E'', Some 15), (''F'', Some 8)]"
  by code_simp

lemma six_numeric: "numeric_column (map total_carb six_restaurants)"
  by code_simp

lemma six_ranked:
  assumes "sorts_ascending srt"
  shows "rank_restaurants_by_carbs srt (Some six_restaurants) =
           (Inr (Some [(''D'', Some 1), (''B'', Some 5), (''F'', Some 8), (''A'', Some 10), (''E'', Some 15)]),
            ranked_info)"
proof -
  let ?p = "[(''A'', 10), (''B'', 5), (''C'', 20), (''D'', 1), (''E'', 15), (''F'', 8 :: rat)]"
  have "srt ?p = sort_key snd ?p"
    by (rule sort_unique[OF assms]) simp
  then have "srt ?p = [(''D'', 1), (''B'', 5), (''F'', 8), (''A'', 10), (''E'', 15), (''C'', 20)]"
    by simp
  then show ?thesis
    by (simp add: rank_restaurants_by_carbs_def rank_restaurants_by_carbs_body_def six_numeric
        six_means sort_values_def try_except_def ranked_info_def)
qed

lemma rank_value:
  assumes "numeric_column (map total_carb d)"
  shows "rank_restaurants_by_carbs srt (Some d) =
           (Inr (Some (take 5 (sort_values srt (carb_means d)))), ranked_info)"
  using assms
  by (simp add: rank_restaurants_by_carbs_def rank_restaurants_by_carbs_body_def try_except_def
      ranked_info_def)

text \<open>
  Claim C7. On a frame whose \<open>total_carb\<close> column is numeric, whatever sorting routine
  with the documented behaviour is used, \<open>rank_restaurants_by_carbs\<close> returns
  \<open>min 5 n\<close> entries for \<open>n\<close> distinct restaurants, each a restaurant with its
  average, no restaurant twice, in ascending order of the average (a missing average
  last); every restaurant left out has an average at least as large as every one
  returned; with at most five restaurants all of them are returned. On the six
  restaurants with averages A = 10, B = 5, C = 20, D = 1, E = 15, F = 8 the result is
  D, B, F, A, E with these averages, and C is left out.
\<close>

theorem rank_restaurants_by_carbs_smallest_five:
  assumes "sorts_ascending srt" and "numeric_column (map total_carb d)"
  shows "\<exists>rk. rank_restaurants_by_carbs srt (Some d) = (Inr (Some rk), ranked_info)
           \<and> length rk = min 5 (card (restaurant ` set d))
           \<and> set rk \<subseteq> set (carb_means d) \<and> distinct (map fst rk)
           \<and> sorted_wrt (\<lambda>x y. avg_le (snd x) (snd y)) rk
           \<and> (\<forall>x \<in> set (carb_means d) - set rk. \<forall>y \<in> set rk. avg_le (snd y) (snd x))
           \<and> (card (restaurant ` set d) \<le> 5 \<longrightarrow> set rk = set (carb_means d))
           \<and> rank_restaurants_by_carbs srt (Some six_restaurants) =
               (Inr (Some [(''D'', Some 1), (''B'', Some 5), (''F'', Some 8), (''A'', Some 10),
                           (''E'', Some 15)]), ranked_info)"
proof -
  let ?xs = "carb_means d"
  let ?ys = "sort_values srt ?xs"
  let ?rk = "take 5 ?ys"
  have m: "mset ?ys = mset ?xs" using assms(1) by (rule sort_values_mset)
  then have set_eq: "set ?ys = set ?xs" by (rule mset_eq_setD)
  have len: "length ?ys = card (restaurant ` set d)"
    using mset_eq_length[OF m] group_keys_length[of d] carb_means_fst[of d]
    by (metis length_map)
  have 1: "length ?rk = min 5 (card (restaurant ` set d))"
    by (simp add: len min.commute)
  have 2: "set ?rk \<subseteq> set ?xs"
    using set_take_subset[of 5 ?ys] set_eq by simp
  have "mset (map fst ?ys) = mset (map fst ?xs)" using m by (metis mset_map)
  moreover have "distinct (map fst ?xs)" by (simp add: carb_means_fst group_keys_def)
  ultimately have "distinct (map fst ?ys)" using mset_eq_imp_distinct_iff by blast
  then have 3: "distinct (map fst ?rk)" by (simp add: take_map[symmetric])
  have asc: "sorted_wrt (\<lambda>x y. avg_le (snd x) (snd y)) ?ys"
    using assms(1) by (rule sort_values_ascending)
  have 4: "sorted_wrt (\<lambda>x y. avg_le (snd x) (snd y)) ?rk"
    using asc by (rule sorted_wrt_take_drop(1))
  have 5: "\<forall>x \<in> set ?xs - set ?rk. \<forall>y \<in> set ?rk. avg_le (snd y) (snd x)"
  proof (intro ballI)
    fix x y assume x: "x \<in> set ?xs - set ?rk" and y: "y \<in> set ?rk"
    have "set ?ys = set ?rk \<union> set (drop 5 ?ys)"
      by (metis append_take_drop_id set_append)
    then have "x \<in> set (drop 5 ?ys)" using x set_eq by blast
    then show "avg_le (snd y) (snd x)"
      using sorted_wrt_take_drop(2)[OF asc, of 5] y by blast
  qed
  have 6: "card (restaurant ` set d) \<le> 5 \<longrightarrow> set ?rk = set ?xs"
    using len set_eq by simp
  show ?thesis
    using rank_value[OF assms(2), of srt] 1 2 3 4 5 6 six_ranked[OF assms(1)] by blast
qed

theorem rank_restaurants_by_carbs_smallest_five_witness:
  "sorts_ascending stable_sort \<and> numeric_column (map total_carb six_restaurants)
   \<and> card (restaurant ` set six_restaurants) = 6
   \<and> rank_restaurants_by_carbs stable_sort (Some six_restaurants) =
       (Inr (Some [(''D'', Some 1), (''B'', Some 5), (''F'', Some 8), (''A'', Some 10),
                   (''E'', Some 15)]), ranked_info)
   \<and> numeric_column (map total_carb tied) \<and> card (restaurant ` set tied) = 2
   \<and> carb_means tied = [(''A'', Some 5), (''B'', Some 5)]
   \<and> (\<exists>rk. rank_restaurants_by_carbs stable_sort (Some tied) = (Inr (Some rk), ranked_info)
          \<and> length rk = 2 \<and> set rk = {(''A'', Some 5), (''B'', Some 5)})"
proof -
  have c: "card (restaurant ` set six_restaurants) = 6"
    using group_keys_length[of six_restaurants, symmetric] by code_simp
  have n: "numeric_column (map total_carb tied)" by code_simp
  have c2: "card (restaurant ` set tied) = 2"
    using group_keys_length[of tied, symmetric] by code_simp
  have m: "carb_means tied = [(''A'', Some 5), (''B'', Some 5)]" by code_simp
  obtain rk where "rank_restaurants_by_carbs stable_sort (Some tied) = (Inr (Some rk), ranked_info)"
    "length rk = min 5 (card (restaurant ` set tied))"
    "card (restaurant ` set tied) \<le> 5 \<longrightarrow> set rk = set (carb_means tied)"
    using rank_restaurants_by_carbs_smallest_five[OF stable_sort_ok n] by blast
  then have "\<exists>rk. rank_restaurants_by_carbs stable_sort (Some tied) = (Inr (Some rk), ranked_info)
          \<and> length rk = 2 \<and> set rk = {(''A'', Some 5), (''B'', Some 5)}"
    using c2 m by auto
  then show ?thesis
    using rank_restaurants_by_carbs_smallest_five[OF stable_sort_ok six_numeric]
      stable_sort_ok six_numeric c n c2 m by blast
qed

section \<open>Failures: what the caller sees\<close>

lemma numeric_column_iff: "numeric_column cs = (\<forall>c \<in> set cs. \<not> is_text c)"
  by (simp add: numeric_column_def list_all_iff)

text \<open>
  Claim C5, as the code has it. If any record holds a text in \<open>calories\<close>,
  \<open>calculate_calorie_stats\<close> computes no statistics for any restaurant: the
  \<open>TypeError\<close> of the aggregation is caught, one error line is logged, and the caller
  receives \<open>None\<close>; nothing is raised.
\<close>

theorem non_numeric_calories_returns_None:
  assumes "r \<in> set d" and "is_text (calories r)"
  shows "calculate_calorie_stats (Some d) = (Inr None, stats_error)"
proof -
  have "\<not> numeric_column (map calories d)"
    using assms by (auto simp: numeric_column_iff)
  then show ?thesis
    by (simp add: calculate_calorie_stats_def calculate_calorie_stats_body_def try_except_def
        stats_error_def)
qed

theorem non_numeric_calories_returns_None_witness:
  "bad_calories ! 1 \<in> set bad_calories \<and> is_text (calories (bad_calories ! 1))
   \<and> calculate_calorie_stats (Some bad_calories) = (Inr None, stats_error)"
proof -
  have m: "bad_calories ! 1 \<in> set bad_calories" by (simp add: bad_calories_def)
  have t: "is_text (calories (bad_calories ! 1))" by (simp add: bad_calories_def)
  show ?thesis
    using non_numeric_calories_returns_None[OF m t] m t by blast
qed

text \<open>
  Claim C5 as stated fails: on a frame with the calories value \<open>n/a\<close> the call does
  not fail with an error that reaches the caller; it returns \<open>None\<close> and logs.
\<close>

theorem non_numeric_calories_no_DataError:
  "fst (calculate_calorie_stats (Some bad_calories)) = Inr None
   \<and> snd (calculate_calorie_stats (Some bad_calories)) = stats_error"
  by code_simp

section \<open>Empty input\<close>

lemma sorts_empty: "sorts_ascending srt \<Longrightarrow> srt [] = []"
  by (simp add: sorts_ascending_def) (metis mset_zero_iff)

lemma rank_empty:
  "sorts_ascending srt \<Longrightarrow> rank_restaurants_by_carbs srt (Some []) = (Inr (Some []), ranked_info)"
  using sorts_empty[of srt]
  by (simp add: rank_restaurants_by_carbs_def rank_restaurants_by_carbs_body_def
      numeric_column_def carb_means_def group_keys_def sort_values_def try_except_def
      ranked_info_def)

text \<open>
  Claim C6, evaluated on the code. On a frame without rows the calorie statistics and
  the ranking are empty, as the claim says. Classification does not return the frame
  without rows: \<open>categorize_food_items\<close> fails in the assignment of the column, logs
  the error and returns \<open>None\<close>, and \<open>add_subcategory\<close>, which \<open>main\<close> calls
  with that \<open>None\<close>, logs an error and returns \<open>None\<close> as well.
\<close>

theorem empty_frame_is_not_classified:
  "calculate_calorie_stats (Some []) =
     (Inr (Some []), [INFO ''Calorie statistics calculated successfully.''])
   \<and> rank_restaurants_by_carbs stable_sort (Some []) = (Inr (Some []), ranked_info)
   \<and> categorize_food_items (Some []) =
       (Inr None, [ERROR ''Error categorizing food items: {}'' ValueError])
   \<and> add_subcategory None =
       (Inr None, [ERROR ''Error adding subcategories: {}'' AttributeError])
   \<and> classify (Some []) = Inr None"
proof -
  have 1: "calculate_calorie_stats (Some []) =
     (Inr (Some []), [INFO ''Calorie statistics calculated successfully.''])"
    by (simp add: calculate_calorie_stats_def calculate_calorie_stats_body_def
        numeric_column_def calorie_stats_of_def group_keys_def try_except_def)
  have 2: "rank_restaurants_by_carbs stable_sort (Some []) = (Inr (Some []), ranked_info)"
    using stable_sort_ok by (rule rank_empty)
  have 3: "categorize_food_items (Some []) =
       (Inr None, [ERROR ''Error categorizing food items: {}'' ValueError])"
    by (simp add: categorize_food_items_def categorize_food_items_body_empty try_except_def)
  have 4: "add_subcategory None =
       (Inr None, [ERROR ''Error adding subcategories: {}'' AttributeError])"
    by (simp add: add_subcategory_def add_subcategory_body_def try_except_def)
  have 5: "classify (Some []) = Inr None"
    by (simp add: classify_Some)
  show ?thesis using 1 2 3 4 5 by blast
qed

section \<open>What is caught and what leaves an operation\<close>













end
